theory Spec2Isabelle
  imports Main "HOL-Library.Signed_Division" "HOL-Library.AList"
begin

section \<open>Exceptions and results\<close>

text \<open>
  The Python exceptions raised by the modelled code, all of them subclasses of
  \<^verbatim>\<open>Exception\<close>.  \<open>RuntimeError_type msg ty\<close> is
  \<^verbatim>\<open>RuntimeError(msg, type(x))\<close> with \<open>ty\<close> the name of the class of \<open>x\<close>;
  \<open>TVMError\<close> stands for any error coming out of the external toolchain.
  A computation that may raise returns \<open>exception + 'a\<close>, \<open>Inl\<close> being the raise.
\<close>

datatype exception =
    AssertionError string
  | AttributeError string
  | ValueError string
  | IndexError string
  | ZeroDivisionError string
  | RuntimeError string
  | RuntimeError_type string string
  | TVMError string

fun str_exception :: "exception \<Rightarrow> string" where
  "str_exception (AssertionError m) = m"
| "str_exception (AttributeError m) = m"
| "str_exception (ValueError m) = m"
| "str_exception (IndexError m) = m"
| "str_exception (ZeroDivisionError m) = m"
| "str_exception (RuntimeError m) = m"
| "str_exception (RuntimeError_type m ty) =
     ''('' @ [CHR 0x27] @ m @ [CHR 0x27] @ '', <class '' @ [CHR 0x27] @ ty @ [CHR 0x27] @ ''>)''"
| "str_exception (TVMError m) = m"

text \<open>The \<^verbatim>\<open>AttributeError\<close> of reading an attribute of \<^verbatim>\<open>None\<close>.\<close>

definition no_attribute :: "string \<Rightarrow> exception" where
  "no_attribute a =
     AttributeError ([CHR 0x27] @ ''NoneType'' @ [CHR 0x27] @ '' object has no attribute ''
                     @ [CHR 0x27] @ a @ [CHR 0x27])"

section \<open>Strings\<close>

text \<open>
  A Python \<^verbatim>\<open>str\<close> whose characters the code inspects is the list of its code
  points, and \<open>ascii\<close> gives the code points of an ASCII literal.  Names and messages,
  which are only put together and passed on, are kept as \<open>string\<close>.
\<close>

type_synonym code_points = "nat list"

definition ascii :: "string \<Rightarrow> code_points" where
  "ascii s = map of_char s"

text \<open>
  Python's \<^verbatim>\<open>str.replace(old, new)\<close>: the occurrences of \<open>old\<close> are found from
  left to right, without overlap, and each is replaced.  An empty \<open>old\<close> matches before
  every character and at the end.
\<close>

function str_replace :: "'a list \<Rightarrow> 'a list \<Rightarrow> 'a list \<Rightarrow> 'a list" where
  "str_replace old new [] = []"
| "str_replace old new (c # cs) =
     (if old \<noteq> [] \<and> take (length old) (c # cs) = old
      then new @ str_replace old new (drop (length old) (c # cs))
      else c # str_replace old new cs)"
  by pat_completeness auto
termination
  by (relation "measure (\<lambda>(old, new, s). length s)") auto

definition replace :: "'a list \<Rightarrow> 'a list \<Rightarrow> 'a list \<Rightarrow> 'a list" where
  "replace s old new =
     (if old = [] then new @ concat (map (\<lambda>c. c # new) s) else str_replace old new s)"

text \<open>
  The digits of the interpreter's Unicode database (Unicode 14.0), as ranges of code
  points.  A range of \<open>decimal_ranges\<close> holds decimal digits (category Nd): it starts at
  a digit zero and the digits follow in order, ten by ten.  A range of
  \<open>other_digit_ranges\<close> holds characters that are digits without being decimal ones,
  such as the superscript two U+00B2 (code point 178).
\<close>

definition decimal_ranges :: "(nat \<times> nat) list" where
  "decimal_ranges =
     [(48, 57), (1632, 1641), (1776, 1785), (1984, 1993), (2406, 2415), (2534, 2543),
      (2662, 2671), (2790, 2799), (2918, 2927), (3046, 3055), (3174, 3183), (3302, 3311),
      (3430, 3439), (3558, 3567), (3664, 3673), (3792, 3801), (3872, 3881), (4160, 4169),
      (4240, 4249), (6112, 6121), (6160, 6169), (6470, 6479), (6608, 6617), (6784, 6793),
      (6800, 6809), (6992, 7001), (7088, 7097), (7232, 7241), (7248, 7257), (42528, 42537),
      (43216, 43225), (43264, 43273), (43472, 43481), (43504, 43513), (43600, 43609),
      (44016, 44025), (65296, 65305), (66720, 66729), (68912, 68921), (69734, 69743),
      (69872, 69881), (69942, 69951), (70096, 70105), (70384, 70393), (70736, 70745),
      (70864, 70873), (71248, 71257), (71360, 71369), (71472, 71481), (71904, 71913),
      (72016, 72025), (72784, 72793), (73040, 73049), (73120, 73129), (92768, 92777),
      (92864, 92873), (93008, 93017), (120782, 120831), (123200, 123209), (123632, 123641),
      (125264, 125273), (130032, 130041)]"

definition other_digit_ranges :: "(nat \<times> nat) list" where
  "other_digit_ranges =
     [(178, 179), (185, 185), (4969, 4977), (6618, 6618), (8304, 8304), (8308, 8313),
      (8320, 8329), (9312, 9320), (9332, 9340), (9352, 9360), (9450, 9450), (9461, 9469),
      (9471, 9471), (10102, 10110), (10112, 10120), (10122, 10130), (68160, 68163),
      (69216, 69224), (69714, 69722), (127232, 127242)]"

definition in_range :: "nat \<Rightarrow> nat \<times> nat \<Rightarrow> bool" where
  "in_range cp r = (fst r \<le> cp \<and> cp \<le> snd r)"

definition isdecimal_char :: "nat \<Rightarrow> bool" where
  "isdecimal_char cp = list_ex (in_range cp) decimal_ranges"

definition isdigit_char :: "nat \<Rightarrow> bool" where
  "isdigit_char cp = (isdecimal_char cp \<or> list_ex (in_range cp) other_digit_ranges)"

definition decimal_value :: "nat \<Rightarrow> int" where
  "decimal_value cp =
     (case find (in_range cp) decimal_ranges of
        None \<Rightarrow> 0
      | Some r \<Rightarrow> int ((cp - fst r) mod 10))"

text \<open>\<^verbatim>\<open>str.isdigit()\<close>: every character is a digit and there is at least one.\<close>

definition isdigit :: "code_points \<Rightarrow> bool" where
  "isdigit s = (s \<noteq> [] \<and> list_all isdigit_char s)"

text \<open>Python's decimal \<^verbatim>\<open>str\<close> of a natural number and of an integer.\<close>

function str_nat :: "nat \<Rightarrow> string" where
  "str_nat n =
     (if n < 10 then [''0123456789'' ! n]
      else str_nat (n div 10) @ [''0123456789'' ! (n mod 10)])"
  by pat_completeness auto
termination
  by (relation "measure id") auto

declare str_nat.simps [simp del]

definition str_int :: "int \<Rightarrow> string" where
  "str_int i = (if i < 0 then ''-'' @ str_nat (nat (- i)) else str_nat (nat i))"

text \<open>
  \<^verbatim>\<open>int(s)\<close> on a string that holds no sign, space or underscore, as every string
  does on which \<^verbatim>\<open>isdigit()\<close> is true.  The decimal digits the string starts with
  are counted; more of them than the interpreter's limit \<open>max_str_digits\<close>
  (\<^verbatim>\<open>sys.get_int_max_str_digits()\<close>, 4300 unless it is set, 0 for no limit) raise a
  \<^verbatim>\<open>ValueError\<close>, and so does a string that is empty or goes on with anything else.
  The message of the second \<^verbatim>\<open>ValueError\<close> ends with the \<^verbatim>\<open>repr\<close> of the string,
  which is left out.
\<close>

definition int_of_str :: "nat \<Rightarrow> code_points \<Rightarrow> exception + int" where
  "int_of_str max_str_digits s =
     (let digits = takeWhile isdecimal_char s
      in if max_str_digits \<noteq> 0 \<and> max_str_digits < length digits
         then Inl (ValueError
           (''Exceeds the limit ('' @ str_nat max_str_digits
            @ '' digits) for integer string conversion: value has ''
            @ str_nat (length digits)
            @ '' digits; use sys.set_int_max_str_digits() to increase the limit''))
         else if s = [] \<or> digits \<noteq> s
         then Inl (ValueError ''invalid literal for int() with base 10: '')
         else Inr (foldl (\<lambda>n c. 10 * n + decimal_value c) 0 s))"

section \<open>Hardware profiles (\<^verbatim>\<open>bitblas/base/arch\<close>)\<close>

text \<open>
  \<^verbatim>\<open>tvm.target.Target\<close> and \<^verbatim>\<open>tvm.runtime.Device\<close> are objects of the external
  toolchain; the records hold the attributes the source reads.
\<close>

record target =
  target_str :: string
  arch :: code_points
  l2_cache_size_bytes :: int

record device =
  exist :: bool
  max_shared_memory_per_block :: int
  multi_processor_count :: int
  warp_size :: int
  compute_version :: string

text \<open>
  \<^verbatim>\<open>check_gfx_version\<close> of \<^verbatim>\<open>rdna.py\<close>; \<open>max_str_digits\<close> is the
  interpreter's limit that \<^verbatim>\<open>int\<close> obeys.
\<close>

definition check_gfx_version :: "nat \<Rightarrow> code_points \<Rightarrow> exception + int" where
  "check_gfx_version max_str_digits arch_s =
     (let gfx_version = replace arch_s (ascii ''gfx'') []
      in if isdigit gfx_version then int_of_str max_str_digits gfx_version else Inr (- 1))"

record rdna =
  rdna_target :: target
  rdna_gfx_version :: int
  rdna_device :: device
  rdna_platform :: string
  rdna_smem_cap :: int
  rdna_compute_max_core :: int
  rdna_warp_size :: int
  rdna_compute_capability :: string
  rdna_reg_cap :: int
  rdna_max_smem_usage :: int
  rdna_sm_partition :: int
  rdna_l2_cache_size_bytes :: int
  rdna_transaction_size :: "int list"
  rdna_bandwidth :: "int list"

text \<open>
  \<^verbatim>\<open>RDNA.__init__\<close>.  The argument is a \<^verbatim>\<open>Target\<close> (\<open>Inr\<close>) or a string
  (\<open>Inl\<close>), which \<open>Target\<close>, the toolchain's constructor, turns into one;
  \<open>hip\<close> is \<^verbatim>\<open>tvm.runtime.hip\<close>, giving the device of an index.  The version is
  parsed before the device is looked for, so an exception of the parser comes first.
\<close>

definition RDNA_init ::
  "nat \<Rightarrow> (string \<Rightarrow> target) \<Rightarrow> (nat \<Rightarrow> device) \<Rightarrow> string + target \<Rightarrow> exception + rdna" where
  "RDNA_init max_str_digits Target hip tgt =
     (let tgt = (case tgt of Inl s \<Rightarrow> Target s | Inr t \<Rightarrow> t)
      in case check_gfx_version max_str_digits (arch tgt) of
           Inl e \<Rightarrow> Inl e
         | Inr gfx_version \<Rightarrow>
             let dev = hip 0
             in if \<not> exist dev then Inl (RuntimeError ''Cannot find HIP device 0.'')
                else
                  let smem_cap = max_shared_memory_per_block dev
                  in Inr \<lparr> rdna_target = tgt,
                           rdna_gfx_version = gfx_version,
                           rdna_device = dev,
                           rdna_platform = ''RDNA'',
                           rdna_smem_cap = smem_cap,
                           rdna_compute_max_core = multi_processor_count dev,
                           rdna_warp_size = warp_size dev,
                           rdna_compute_capability = replace (compute_version dev) ''.'' [],
                           rdna_reg_cap = 32768,
                           rdna_max_smem_usage = 2 * smem_cap,
                           rdna_sm_partition = 4,
                           rdna_l2_cache_size_bytes = l2_cache_size_bytes tgt,
                           rdna_transaction_size = [32, 128],
                           rdna_bandwidth = [1300, 14000] \<rparr>)"



text \<open>\<open>occurs old s\<close>: \<open>old\<close> occurs somewhere in \<open>s\<close>.\<close>

fun occurs :: "'a list \<Rightarrow> 'a list \<Rightarrow> bool" where
  "occurs old [] = (old = [])"
| "occurs old (c # cs) = (take (length old) (c # cs) = old \<or> occurs old cs)"

section \<open>Logging\<close>

text \<open>
  The records emitted on the module's logger, in order: a level and the message.
\<close>

datatype log_level = DEBUG | INFO | WARNING

type_synonym log_record = "log_level \<times> string"

definition APPLY_SCHEDULE_FAILED_MESSAGE :: "string \<Rightarrow> string \<Rightarrow> string \<Rightarrow> string \<Rightarrow> string" where
  "APPLY_SCHEDULE_FAILED_MESSAGE cls tgt hint err =
     ''Failed to apply default schedule for operator '' @ cls @ '' With target '' @ tgt
     @ '' and hint '' @ hint @ ''. '' @ [CHR 0x0A] @ ''The error message: '' @ err
     @ '' Please perform hardware-aware tuning manually.''"

definition BUILD_RUNTIME_LIBRARY_FAILED_MESSAGE :: "string \<Rightarrow> string \<Rightarrow> string \<Rightarrow> string \<Rightarrow> string" where
  "BUILD_RUNTIME_LIBRARY_FAILED_MESSAGE cls tgt hint err =
     ''Failed to build runtime library for operator '' @ cls @ '' With target '' @ tgt
     @ '' and hint '' @ hint @ ''. '' @ [CHR 0x0A] @ ''The error message: '' @ err
     @ '' Please perform hardware-aware tuning manually.''"

section \<open>Tensor programs and modules\<close>

text \<open>
  The objects of the tensor IR that the operator inspects: a symbolic variable, an
  integer immediate, an array of integer immediates (given by their values), and any
  other object, given by the name of its class.
\<close>

datatype tvm_obj = Var string | IntImm int | Array "int list" | Object string

fun type_name :: "tvm_obj \<Rightarrow> string" where
  "type_name (Var n) = ''tvm.tir.expr.Var''"
| "type_name (IntImm v) = ''tvm.tir.expr.IntImm''"
| "type_name (Array vs) = ''tvm.ir.container.Array''"
| "type_name (Object cls) = cls"

record buffer =
  shape :: "tvm_obj list"
  dtype :: string

text \<open>
  A \<^verbatim>\<open>PrimFunc\<close>: its parameters, its buffer map, the two attributes the operator
  reads or writes (\<^verbatim>\<open>global_symbol\<close>, \<^verbatim>\<open>opt_shapes\<close>; \<open>None\<close> when the
  attribute is not there) and its body, which is opaque.
\<close>

record PrimFunc =
  params :: "string list"
  buffer_map :: "(string \<times> buffer) list"
  global_symbol :: "string option"
  opt_shapes :: "(string \<times> tvm_obj) list option"
  body :: string

definition with_attr_global_symbol :: "PrimFunc \<Rightarrow> string \<Rightarrow> PrimFunc" where
  "with_attr_global_symbol f s = f\<lparr>global_symbol := Some s\<rparr>"

text \<open>
  An \<^verbatim>\<open>IRModule\<close> maps the names of its global functions to their definitions;
  it is kept as an association list, one entry for each global function.
\<close>

type_synonym IRModule = "(string \<times> PrimFunc) list"

definition get_global_vars :: "IRModule \<Rightarrow> string list" where
  "get_global_vars m = map fst m"

definition module_contains :: "IRModule \<Rightarrow> string \<Rightarrow> bool" where
  "module_contains m n = (map_of m n \<noteq> None)"

definition module_getitem :: "IRModule \<Rightarrow> string \<Rightarrow> exception + PrimFunc" where
  "module_getitem m n =
     (case map_of m n of
        None \<Rightarrow> Inl (TVMError (''Cannot find global var '' @ n @ '' in the Module''))
      | Some f \<Rightarrow> Inr f)"

definition module_setitem :: "IRModule \<Rightarrow> string \<Rightarrow> PrimFunc \<Rightarrow> IRModule" where
  "module_setitem m n f = AList.update n f m"

section \<open>The operator (\<^verbatim>\<open>bitblas/ops/operator.py\<close>)\<close>

record tile_device =
  platform :: string
  tile_device_device :: device

record RtModule =
  entry_name :: string
  imported_modules :: "string list"

datatype cfg_value = CBool bool | CInt int

type_synonym pass_config = "(string \<times> cfg_value) list"

record Hint =
  hint_pass_context :: pass_config
  hint_repr :: string

record BestResult =
  sch_mod :: IRModule
  best_config :: Hint

record Lib =
  lib_path :: string
  initialised :: bool

text \<open>
  The state of an \<^verbatim>\<open>Operator\<close>.  \<open>class_name\<close> is
  \<^verbatim>\<open>self.__class__.__name__\<close>; \<open>lib_code\<close> is the code held by the library
  generator, \<open>wrapper_mod\<close> the module assigned to the wrapper,
  \<open>cuda_postproc\<close> tells whether the post-processing callback was registered, and
  \<open>logged\<close> holds the records emitted so far.  The kernel name generator, when
  there is one, is its \<^verbatim>\<open>generate\<close> method.
\<close>

record operator =
  name :: string
  class_name :: string
  target :: "target option"
  prim_func_mod :: IRModule
  optimized_mod :: "IRModule option"
  rt_mod :: "RtModule option"
  time_evaluator :: "(string \<times> device \<times> nat) option"
  torch_func :: "RtModule option"
  arch :: "tile_device option"
  dynamic_range :: "(string \<times> int list) list option"
  pass_context :: pass_config
  kernel_name_generator :: "(Hint option \<Rightarrow> exception + string) option"
  lib :: "Lib option"
  lib_code :: "string option"
  wrapper_mod :: "IRModule option"
  cuda_postproc :: bool
  logged :: "log_record list"

text \<open>
  The external services: the default schedule pipeline, the two build entry points,
  the two tuning entry points, and the wrapper and library generator.  Each is a
  function of its arguments that returns a value or raises.
\<close>

record env =
  ApplyDefaultSchedule :: "IRModule \<Rightarrow> target option \<Rightarrow> exception + IRModule option"
  tvm_build_module :: "pass_config \<Rightarrow> IRModule \<Rightarrow> target option \<Rightarrow> exception + RtModule"
  tvm_build_func :: "PrimFunc \<Rightarrow> target option \<Rightarrow> string \<Rightarrow> exception + RtModule"
  fast_tune ::
    "PrimFunc \<Rightarrow> target option \<Rightarrow> nat \<Rightarrow> bool \<Rightarrow> exception + (BestResult list \<times> BestResult option)"
  fast_tune_with_dynamic_range ::
    "PrimFunc \<Rightarrow> target option \<Rightarrow> nat \<Rightarrow> bool \<Rightarrow> (string \<times> int list) list
       \<Rightarrow> (Hint option \<Rightarrow> exception + string) option \<Rightarrow> exception + IRModule option"
  wrapper_wrap :: "IRModule option \<Rightarrow> string \<Rightarrow> bool \<Rightarrow> exception + string"
  compile_lib :: "string \<Rightarrow> exception + string"
  load_lib :: "string \<Rightarrow> exception + Lib"
  lib_init :: "Lib \<Rightarrow> exception + Lib"

definition str_target :: "target option \<Rightarrow> string" where
  "str_target t = (case t of None \<Rightarrow> ''None'' | Some tg \<Rightarrow> target_str tg)"

text \<open>The \<^verbatim>\<open>prim_func\<close> property.\<close>

definition prim_func :: "operator \<Rightarrow> exception + PrimFunc" where
  "prim_func st =
     (if length (get_global_vars (prim_func_mod st)) = 1
      then module_getitem (prim_func_mod st) (get_global_vars (prim_func_mod st) ! 0)
      else if module_contains (prim_func_mod st) ''main''
      then module_getitem (prim_func_mod st) ''main''
      else Inl (ValueError ''Unable to determine primary function.''))"

text \<open>\<^verbatim>\<open>update_func\<close>.\<close>

definition update_func :: "PrimFunc \<Rightarrow> operator \<Rightarrow> operator" where
  "update_func func st = st\<lparr>prim_func_mod := module_setitem (prim_func_mod st) ''main'' func\<rparr>"

text \<open>\<^verbatim>\<open>_update_optimized_mod\<close> (the leading underscore of a name is dropped).\<close>

definition update_optimized_mod :: "IRModule \<Rightarrow> operator \<Rightarrow> operator" where
  "update_optimized_mod om st = st\<lparr>optimized_mod := Some om\<rparr>"

text \<open>\<^verbatim>\<open>apply_default_schedule\<close>: the pipeline runs on a copy of the module.\<close>

definition apply_default_schedule ::
  "env \<Rightarrow> IRModule \<Rightarrow> target option \<Rightarrow> exception + IRModule option" where
  "apply_default_schedule ev func_mod tgt =
     (case ApplyDefaultSchedule ev func_mod tgt of
        Inl e \<Rightarrow> Inl e
      | Inr om \<Rightarrow> (if om \<noteq> None then Inr om else Inr None))"

text \<open>
  The configuration of the pass context of the CUDA build: the two fixed flags, then
  the entries of the captured pass context, a later entry overriding an earlier one of
  the same name.
\<close>

definition build_pass_config :: "pass_config \<Rightarrow> pass_config" where
  "build_pass_config pc =
     foldl (\<lambda>m (k, v). AList.update k v m)
       [(''tir.use_async_copy'', CBool True), (''tir.disable_cse_tir'', CBool True)] pc"

text \<open>
  The source of a built runtime module, as \<^verbatim>\<open>get_source\<close> returns it when asked
  for the kernel only and the module is there:
  \<^verbatim>\<open>rt_mod.imported_modules[0].get_source()\<close>.
\<close>

definition rt_source :: "RtModule \<Rightarrow> exception + string" where
  "rt_source rt =
     (case imported_modules rt of
        [] \<Rightarrow> Inl (IndexError ''list index out of range'')
      | src # _ \<Rightarrow> Inr src)"

text \<open>
  The body of the second \<^verbatim>\<open>try\<close> of \<^verbatim>\<open>_build_runtime_module\<close>, which wraps
  the device source into a library, compiles and loads it.  \<open>rt\<close> is the module just
  built and stored.  The result is the exception raised, if any, and the state reached.
\<close>

definition runtime_library_steps ::
  "env \<Rightarrow> target option \<Rightarrow> RtModule \<Rightarrow> operator \<Rightarrow> exception option \<times> operator" where
  "runtime_library_steps ev tgt rt st =
     (case (case dynamic_range st of
              None \<Rightarrow> Inr False
            | Some dr \<Rightarrow>
                (case optimized_mod st of
                   None \<Rightarrow> Inl (no_attribute ''functions'')
                 | Some om \<Rightarrow> Inr (length om > 1))) of
        Inl e \<Rightarrow> (Some e, st)
      | Inr is_dynamic \<Rightarrow>
          let st1 = st\<lparr>wrapper_mod := optimized_mod st\<rparr>
          in (case rt_source rt of
                Inl e \<Rightarrow> (Some e, st1)
              | Inr src \<Rightarrow>
                  (case wrapper_wrap ev (wrapper_mod st1) src is_dynamic of
                     Inl e \<Rightarrow> (Some e, st1)
                   | Inr wrapped_source \<Rightarrow>
                       let st2 = st1\<lparr>lib_code := Some wrapped_source\<rparr>
                       in (case compile_lib ev wrapped_source of
                             Inl e \<Rightarrow> (Some e, st2)
                           | Inr path \<Rightarrow>
                               (case load_lib ev path of
                                  Inl e \<Rightarrow> (Some e, st2)
                                | Inr l \<Rightarrow>
                                    let st3 = st2\<lparr>lib := Some l\<rparr>
                                    in (case lib_init ev l of
                                          Inl e \<Rightarrow> (Some e, st3)
                                        | Inr l' \<Rightarrow> (None, st3\<lparr>lib := Some l'\<rparr>)))))))"

definition build_runtime_library :: "env \<Rightarrow> target option \<Rightarrow> RtModule \<Rightarrow> operator \<Rightarrow> operator" where
  "build_runtime_library ev tgt rt st =
     (case runtime_library_steps ev tgt rt st of
        (None, st') \<Rightarrow> st'
      | (Some e, st') \<Rightarrow>
          st'\<lparr>logged := logged st' @ [(DEBUG, ''Failed to build runtime library '' @ str_exception e)]\<rparr>)"

text \<open>
  The end of \<^verbatim>\<open>_build_runtime_module\<close>, from \<^verbatim>\<open>if rt_mod:\<close> on; \<open>rt_opt\<close>
  is the local \<^verbatim>\<open>rt_mod\<close>, and a built module is true.
\<close>

definition after_build ::
  "env \<Rightarrow> target option \<Rightarrow> tile_device \<Rightarrow> RtModule option \<Rightarrow> operator
     \<Rightarrow> (exception + RtModule option) \<times> operator" where
  "after_build ev tgt a rt_opt st =
     (case rt_opt of
        None \<Rightarrow> (Inr None, st)
      | Some rt \<Rightarrow>
          let st1 = st\<lparr>rt_mod := Some rt,
                       time_evaluator := Some (entry_name rt, tile_device_device a, 10),
                       torch_func := Some rt\<rparr>
          in (Inr (Some rt),
              if platform a = ''CUDA'' then build_runtime_library ev tgt rt st1 else st1))"

text \<open>\<^verbatim>\<open>_build_runtime_module\<close>: the value returned or the exception, and the state.\<close>

definition build_runtime_module ::
  "env \<Rightarrow> target option \<Rightarrow> operator \<Rightarrow> (exception + RtModule option) \<times> operator" where
  "build_runtime_module ev tgt st =
     (case arch st of
        None \<Rightarrow> (Inl (no_attribute ''platform''), st)
      | Some a \<Rightarrow>
          if platform a = ''CUDA'' then
            (case optimized_mod st of
               None \<Rightarrow> (Inr None, st)
             | Some om \<Rightarrow>
                 let st1 = st\<lparr>cuda_postproc := True\<rparr>
                 in (case tvm_build_module ev (build_pass_config (pass_context st1)) om tgt of
                       Inl e \<Rightarrow>
                         after_build ev tgt a None
                           (st1\<lparr>logged := logged st1 @
                              [(DEBUG, BUILD_RUNTIME_LIBRARY_FAILED_MESSAGE (class_name st1)
                                  (str_target tgt) ''optimized''
                                  ''Failed to build optimized module'')]\<rparr>)
                     | Inr rt \<Rightarrow> after_build ev tgt a (Some rt) st1))
          else
            (case prim_func st of
               Inl e \<Rightarrow> (Inl e, st)
             | Inr f \<Rightarrow>
                 (case tvm_build_func ev f tgt (name st) of
                    Inl e \<Rightarrow> (Inl e, st)
                  | Inr rt \<Rightarrow> after_build ev tgt a (Some rt) st)))"

text \<open>
  The body of the \<^verbatim>\<open>try\<close> of \<^verbatim>\<open>_build_default_module\<close>.  Nothing is stored
  before its last statement, so it returns the exception or the new state.
\<close>

definition default_schedule_try :: "env \<Rightarrow> target option \<Rightarrow> operator \<Rightarrow> exception + operator" where
  "default_schedule_try ev tgt st =
     (case apply_default_schedule ev (prim_func_mod st) tgt of
        Inl e \<Rightarrow> Inl e
      | Inr None \<Rightarrow> Inl (no_attribute ''get_global_vars'')
      | Inr (Some scheduled_mod) \<Rightarrow>
          if length (get_global_vars scheduled_mod) \<noteq> 1
          then Inl (AssertionError
            ''The optimized module should only have one global variable for default schedule.'')
          else if \<not> module_contains scheduled_mod ''main''
          then Inl (AssertionError
            (''The optimized module should have a function named '' @ [CHR 0x27] @ ''main'' @ [CHR 0x27]
               @ '' for default schedule.''))
          else
            (case kernel_name_generator st of
               None \<Rightarrow> Inl (no_attribute ''generate'')
             | Some generate \<Rightarrow>
                 (case generate None of
                    Inl e \<Rightarrow> Inl e
                  | Inr default_kernal_name \<Rightarrow>
                      (case module_getitem scheduled_mod ''main'' of
                         Inl e \<Rightarrow> Inl e
                       | Inr f \<Rightarrow>
                           Inr (update_optimized_mod
                                  [(default_kernal_name,
                                    with_attr_global_symbol f default_kernal_name)] st)))))"

text \<open>\<^verbatim>\<open>_build_default_module\<close>.\<close>

definition build_default_module ::
  "env \<Rightarrow> target option \<Rightarrow> operator \<Rightarrow> (exception + unit) \<times> operator" where
  "build_default_module ev tgt st =
     (let st1 = (case default_schedule_try ev tgt st of
                   Inr st' \<Rightarrow> st'
                 | Inl apply_schedule_error \<Rightarrow>
                     st\<lparr>optimized_mod := None,
                        logged := logged st @
                          [(WARNING, APPLY_SCHEDULE_FAILED_MESSAGE (class_name st) (str_target tgt)
                              ''default'' (str_exception apply_schedule_error))]\<rparr>)
      in (case build_runtime_module ev tgt st1 of
            (Inl e, st2) \<Rightarrow> (Inl e, st2)
          | (Inr r, st2) \<Rightarrow> (Inr (), st2)))"

text \<open>\<^verbatim>\<open>apply_fast_tuning\<close>.\<close>

definition apply_fast_tuning ::
  "env \<Rightarrow> PrimFunc \<Rightarrow> target option \<Rightarrow> nat \<Rightarrow> bool \<Rightarrow> operator
     \<Rightarrow> (exception + (IRModule option \<times> Hint option)) \<times> operator" where
  "apply_fast_tuning ev func tgt topk parallel_build st =
     (case fast_tune ev func tgt topk parallel_build of
        Inl e \<Rightarrow> (Inl e, st)
      | Inr (cands, best) \<Rightarrow>
          (case best of
             None \<Rightarrow> (Inl (no_attribute ''config''), st)
           | Some b \<Rightarrow>
               let st1 = st\<lparr>pass_context := hint_pass_context (best_config b)\<rparr>
               in (Inr (case best of
                          Some b' \<Rightarrow> (Some (sch_mod b'), Some (best_config b'))
                        | None \<Rightarrow> (None, None)),
                   st1)))"

text \<open>\<^verbatim>\<open>apply_fast_tuning_with_dynamic_range\<close>.\<close>

definition apply_fast_tuning_with_dynamic_range ::
  "env \<Rightarrow> PrimFunc \<Rightarrow> target option \<Rightarrow> nat \<Rightarrow> (string \<times> int list) list \<Rightarrow> operator
     \<Rightarrow> exception + IRModule option" where
  "apply_fast_tuning_with_dynamic_range ev func tgt topk dr st =
     (case fast_tune_with_dynamic_range ev func tgt topk True dr (kernel_name_generator st) of
        Inl e \<Rightarrow> Inl e
      | Inr om \<Rightarrow> (if om \<noteq> None then Inr om else Inr None))"

text \<open>
  \<^verbatim>\<open>hardware_aware_finetune\<close>, up to the call of the build: the exception or
  the state with the optimized module stored.
\<close>

definition finetune_schedule ::
  "env \<Rightarrow> nat \<Rightarrow> target option \<Rightarrow> bool \<Rightarrow> operator \<Rightarrow> (exception + unit) \<times> operator" where
  "finetune_schedule ev topk tgt parallel_build st =
     (case prim_func st of
        Inl e \<Rightarrow> (Inl e, st)
      | Inr func \<Rightarrow>
          (case dynamic_range st of
             Some dr \<Rightarrow>
               (case apply_fast_tuning_with_dynamic_range ev func tgt topk dr st of
                  Inl e \<Rightarrow> (Inl e, st)
                | Inr om \<Rightarrow> (Inr (), st\<lparr>optimized_mod := om\<rparr>))
           | None \<Rightarrow>
               (case apply_fast_tuning ev func tgt topk parallel_build st of
                  (Inl e, st1) \<Rightarrow> (Inl e, st1)
                | (Inr (None, best_hint), st1) \<Rightarrow>
                    (Inl (no_attribute ''get_global_vars''), st1)
                | (Inr (Some scheduled_mod, best_hint), st1) \<Rightarrow>
                    if length (get_global_vars scheduled_mod) \<noteq> 1
                    then (Inl (AssertionError
                      ''The optimized module should only have one global variable for default schedule.''),
                      st1)
                    else if \<not> module_contains scheduled_mod ''main''
                    then (Inl (AssertionError
                      (''The optimized module should have a function named '' @ [CHR 0x27] @ ''main'' @ [CHR 0x27]
               @ '' for default schedule.'')),
                      st1)
                    else
                      (case kernel_name_generator st1 of
                         None \<Rightarrow>
                           (Inl (no_attribute ''generate''), st1)
                       | Some generate \<Rightarrow>
                           (case generate best_hint of
                              Inl e \<Rightarrow> (Inl e, st1)
                            | Inr default_kernal_name \<Rightarrow>
                                (case module_getitem scheduled_mod ''main'' of
                                   Inl e \<Rightarrow> (Inl e, st1)
                                 | Inr f \<Rightarrow>
                                     (Inr (),
                                      update_optimized_mod
                                        [(default_kernal_name,
                                          with_attr_global_symbol f default_kernal_name)]
                                        st1)))))))"

text \<open>\<^verbatim>\<open>hardware_aware_finetune\<close>; the build uses the operator's own target.\<close>

definition hardware_aware_finetune ::
  "env \<Rightarrow> nat \<Rightarrow> target option \<Rightarrow> bool \<Rightarrow> operator \<Rightarrow> (exception + unit) \<times> operator" where
  "hardware_aware_finetune ev topk tgt parallel_build st =
     (let tgt = (case tgt of None \<Rightarrow> target st | Some t \<Rightarrow> Some t)
      in (case finetune_schedule ev topk tgt parallel_build st of
            (Inl e, st1) \<Rightarrow> (Inl e, st1)
          | (Inr u, st1) \<Rightarrow>
              (case build_runtime_module ev (target st1) st1 of
                 (Inl e, st2) \<Rightarrow> (Inl e, st2)
               | (Inr r, st2) \<Rightarrow> (Inr (), st2))))"

text \<open>
  \<^verbatim>\<open>var_warpper\<close>, the closure of \<^verbatim>\<open>get_profile_tensors\<close> that resolves one
  dimension of a shape.  It closes over the caller's constraints and the primary
  function; the log is threaded through.  \<open>resolve_opt_shape\<close> is its part that looks
  at the recorded entry of \<^verbatim>\<open>opt_shapes\<close>.  A plain \<^verbatim>\<open>assert\<close> raises with
  an empty message.
\<close>

fun resolve_opt_shape :: "string \<Rightarrow> tvm_obj \<Rightarrow> log_record list \<Rightarrow> (exception + int) \<times> log_record list" where
  "resolve_opt_shape n (IntImm x) lg = (Inr x, lg)"
| "resolve_opt_shape n (Array xs) lg =
     (let avg_shape = foldl (\<lambda>a i. a + i) 0 xs
      in if length xs = 0
         then (Inl (ZeroDivisionError ''integer division or modulo by zero''), lg)
         else
           let avg_shape = avg_shape div int (length xs)
           in (Inr avg_shape,
               lg @ [(INFO, ''Doesn'' @ [CHR 0x27] @ ''t provide dynamic symbolic constrains for ''
                            @ n @ '' when do benchmarking, use average shape ''
                            @ str_int avg_shape)]))"
| "resolve_opt_shape n other lg =
     (Inl (RuntimeError_type ''Not supported type: '' (type_name other)), lg)"

fun var_warpper ::
  "(string \<times> int) list \<Rightarrow> PrimFunc \<Rightarrow> tvm_obj \<Rightarrow> log_record list
     \<Rightarrow> (exception + int) \<times> log_record list" where
  "var_warpper dynamic_symbolic_constraints func (Var n) lg =
     (case map_of dynamic_symbolic_constraints n of
        Some c \<Rightarrow> (Inr c, lg)
      | None \<Rightarrow>
          (case opt_shapes func of
             None \<Rightarrow> (Inl (AssertionError []), lg)
           | Some shapes \<Rightarrow>
               (case map_of shapes n of
                  None \<Rightarrow> (Inl (AssertionError []), lg)
                | Some entry \<Rightarrow> resolve_opt_shape n entry lg)))"
| "var_warpper dynamic_symbolic_constraints func (IntImm x) lg = (Inr x, lg)"
| "var_warpper dynamic_symbolic_constraints func v lg =
     (Inl (RuntimeError_type ''Not supported type: '' (type_name v)), lg)"

text \<open>
  The comprehension \<^verbatim>\<open>[var_warpper(i) for i in arg.shape]\<close>: the dimensions are
  resolved from left to right, and the first exception ends it.
\<close>

fun resolve_shape ::
  "(string \<times> int) list \<Rightarrow> PrimFunc \<Rightarrow> tvm_obj list \<Rightarrow> log_record list
     \<Rightarrow> (exception + int list) \<times> log_record list" where
  "resolve_shape cs func [] lg = (Inr [], lg)"
| "resolve_shape cs func (v # vs) lg =
     (case var_warpper cs func v lg of
        (Inl e, lg1) \<Rightarrow> (Inl e, lg1)
      | (Inr d, lg1) \<Rightarrow>
          (case resolve_shape cs func vs lg1 of
             (Inl e, lg2) \<Rightarrow> (Inl e, lg2)
           | (Inr ds, lg2) \<Rightarrow> (Inr (d # ds), lg2)))"

section \<open>The CPU executor\<close>

text \<open>
  What the executor uses of an operator is its \<^verbatim>\<open>forward\<close> method: it takes the
  positional arguments and, being free to have effects, the state \<open>'w\<close> of whatever it
  acts on; it returns a value or raises.
\<close>

type_synonym ('a, 'w) op_forward = "'a list \<Rightarrow> 'w \<Rightarrow> (exception + 'a) \<times> 'w"

record ('a, 'w) OPExecutorCPU =
  operators :: "('a, 'w) op_forward list"

definition OPExecutorCPU_init :: "('a, 'w) op_forward list option \<Rightarrow> ('a, 'w) OPExecutorCPU" where
  "OPExecutorCPU_init ops = \<lparr>operators = (case ops of None \<Rightarrow> [] | Some l \<Rightarrow> l)\<rparr>"

definition append_op :: "('a, 'w) op_forward \<Rightarrow> ('a, 'w) OPExecutorCPU \<Rightarrow> ('a, 'w) OPExecutorCPU" where
  "append_op op ex = ex\<lparr>operators := operators ex @ [op]\<rparr>"

definition is_none :: "('a, 'w) OPExecutorCPU \<Rightarrow> bool" where
  "is_none ex = (length (operators ex) = 0)"

definition size_ops :: "('a, 'w) OPExecutorCPU \<Rightarrow> nat" where
  "size_ops ex = length (operators ex)"

text \<open>The loop of \<^verbatim>\<open>forward\<close>, with \<open>inputs\<close> its variable.\<close>

fun forward_loop ::
  "('a, 'w) op_forward list \<Rightarrow> 'a list \<Rightarrow> 'w \<Rightarrow> (exception + 'a list) \<times> 'w" where
  "forward_loop [] inputs w = (Inr inputs, w)"
| "forward_loop (op # ops) inputs w =
     (case op inputs w of
        (Inl e, w1) \<Rightarrow> (Inl e, w1)
      | (Inr out, w1) \<Rightarrow> forward_loop ops [out] w1)"

definition forward :: "('a, 'w) OPExecutorCPU \<Rightarrow> 'a \<Rightarrow> 'w \<Rightarrow> (exception + 'a) \<times> 'w" where
  "forward ex weight w =
     (case forward_loop (operators ex) [weight] w of
        (Inl e, w1) \<Rightarrow> (Inl e, w1)
      | (Inr inputs, w1) \<Rightarrow>
          (case inputs of
             [] \<Rightarrow> (Inl (IndexError ''list index out of range''), w1)
           | _ # _ \<Rightarrow> (Inr (last inputs), w1)))"

text \<open>
  An operator to observe the executor with: it computes \<open>f\<close> of its arguments and
  records, in a list of calls, its tag and the arguments it was given.  \<open>calls\<close> is
  the record expected of a chain of them started on \<open>x\<close>: one call for each stage, in
  the order of the chain, each with the one value the stage before returned.
\<close>

definition probe :: "'t \<Rightarrow> ('a list \<Rightarrow> 'a) \<Rightarrow> ('a, ('t \<times> 'a list) list) op_forward" where
  "probe t f args tr = (Inr (f args), tr @ [(t, args)])"

fun calls :: "'a \<Rightarrow> ('t \<times> ('a list \<Rightarrow> 'a)) list \<Rightarrow> ('t \<times> 'a list) list" where
  "calls x [] = []"
| "calls x ((t, f) # r) = (t, [x]) # calls (f [x]) r"

section \<open>Example inputs\<close>

text \<open>
  A target, a device, a primary function with a symbolic dimension \<open>m\<close>, an operator
  on a platform \<open>p\<close>, and external services whose default schedule pipeline returns
  \<open>r\<close>, whose builds fail and whose search finds nothing.
\<close>

definition example_target :: target where
  "example_target = \<lparr>target_str = ''cuda'', arch = ascii ''sm_80'', l2_cache_size_bytes = 41943040\<rparr>"

definition example_device :: device where
  "example_device =
     \<lparr>exist = True, max_shared_memory_per_block = 49152, multi_processor_count = 108,
      warp_size = 32, compute_version = ''8.0''\<rparr>"

definition example_func :: PrimFunc where
  "example_func =
     \<lparr>params = [''a'', ''b'', ''c''],
      buffer_map =
        [(''a'', \<lparr>shape = [Var ''m'', IntImm 1024], dtype = ''float16''\<rparr>),
         (''b'', \<lparr>shape = [IntImm 1024, IntImm 1024], dtype = ''float16''\<rparr>),
         (''c'', \<lparr>shape = [Var ''m'', IntImm 1024], dtype = ''float16''\<rparr>)],
      global_symbol = Some ''main'',
      opt_shapes = Some [(''m'', Array [64, 128, 192]), (''k'', IntImm 256), (''j'', Object ''str'')],
      body = ''matmul''\<rparr>"

definition example_operator :: "string \<Rightarrow> operator" where
  "example_operator p =
     \<lparr>name = ''matmul'', class_name = ''Matmul'', target = Some example_target,
      prim_func_mod = [(''main'', example_func)], optimized_mod = None, rt_mod = None,
      time_evaluator = None, torch_func = None,
      arch = Some \<lparr>platform = p, tile_device_device = example_device\<rparr>,
      dynamic_range = None, pass_context = [], kernel_name_generator = None, lib = None,
      lib_code = None, wrapper_mod = None, cuda_postproc = False, logged = []\<rparr>"

definition example_env :: "exception + IRModule option \<Rightarrow> env" where
  "example_env r =
     \<lparr>ApplyDefaultSchedule = (\<lambda>m t. r),
      tvm_build_module = (\<lambda>c m t. Inl (TVMError ''build failed'')),
      tvm_build_func = (\<lambda>f t n. Inl (TVMError ''build failed'')),
      fast_tune = (\<lambda>f t k b. Inr ([], None)),
      fast_tune_with_dynamic_range = (\<lambda>f t k b d g. Inr None),
      wrapper_wrap = (\<lambda>m s d. Inr s),
      compile_lib = (\<lambda>s. Inr ''lib.so''),
      load_lib = (\<lambda>p. Inr \<lparr>lib_path = p, initialised = False\<rparr>),
      lib_init = (\<lambda>l. Inr (l\<lparr>initialised := True\<rparr>))\<rparr>"

section \<open>The hardware profiles: properties\<close>

lemma str_replace_no_occurrence: "\<not> occurs old s \<Longrightarrow> str_replace old new s = s"
  by (induction s) auto



lemma isdecimal_char_ascii: "cp < 128 \<Longrightarrow> isdecimal_char cp = (48 \<le> cp \<and> cp \<le> 57)"
  by (simp add: isdecimal_char_def in_range_def decimal_ranges_def)

lemma isdigit_char_ascii: "cp < 128 \<Longrightarrow> isdigit_char cp = (48 \<le> cp \<and> cp \<le> 57)"
  by (simp add: isdigit_char_def isdecimal_char_ascii in_range_def other_digit_ranges_def)

lemma decimal_value_ascii: "48 \<le> cp \<Longrightarrow> cp \<le> 57 \<Longrightarrow> decimal_value cp = int cp - 48"
proof -
  assume a: "48 \<le> cp" "cp \<le> 57"
  then have "find (in_range cp) decimal_ranges = Some (48, 57)"
    by (simp add: decimal_ranges_def in_range_def)
  with a show ?thesis
    by (simp add: decimal_value_def of_nat_diff)
qed

lemma isdigit_ascii:
  "list_all (\<lambda>c. c < 128) s \<Longrightarrow> isdigit s = (s \<noteq> [] \<and> list_all (\<lambda>c. 48 \<le> c \<and> c \<le> 57) s)"
  by (auto simp: isdigit_def list_all_iff isdigit_char_ascii)

lemma int_of_str_ascii:
  assumes "s \<noteq> []" and digits: "list_all (\<lambda>c. 48 \<le> c \<and> c \<le> 57) s"
    and "lim = 0 \<or> length s \<le> lim"
  shows "int_of_str lim s = Inr (foldl (\<lambda>n c. 10 * n + (int c - 48)) 0 s)"
proof -
  from digits have "\<forall>c\<in>set s. isdecimal_char c"
    by (auto simp: list_all_iff isdecimal_char_ascii)
  then have tw: "takeWhile isdecimal_char s = s"
    by (simp add: takeWhile_eq_all_conv)
  have "foldl (\<lambda>n c. 10 * n + decimal_value c) 0 s = foldl (\<lambda>n c. 10 * n + (int c - 48)) 0 s"
    using digits by (intro foldl_cong) (auto simp: list_all_iff decimal_value_ascii)
  moreover from assms(3) have "\<not> (lim \<noteq> 0 \<and> lim < length s)"
    by auto
  ultimately show ?thesis
    using assms(1) unfolding int_of_str_def Let_def tw by simp
qed

text \<open>
  On an ASCII string that starts with \<^verbatim>\<open>gfx\<close>, has no other \<^verbatim>\<open>gfx\<close> in it and
  is within the limit of \<^verbatim>\<open>int\<close>, the parser returns the rest as an integer when it
  is not empty and all digits, and \<open>-1\<close> otherwise.
\<close>

lemma check_gfx_version_ascii:
  assumes "list_all (\<lambda>c. c < 128) s" and "\<not> occurs (ascii ''gfx'') s"
    and "lim = 0 \<or> length s \<le> lim"
  shows "check_gfx_version lim (ascii ''gfx'' @ s) =
           Inr (if s \<noteq> [] \<and> list_all (\<lambda>c. 48 \<le> c \<and> c \<le> 57) s
                then foldl (\<lambda>n c. 10 * n + (int c - 48)) 0 s else - 1)"
proof -
  from assms(2) have "str_replace (ascii ''gfx'') [] s = s"
    by (rule str_replace_no_occurrence)
  then have r: "replace (ascii ''gfx'' @ s) (ascii ''gfx'') [] = s"
    by (simp add: replace_def ascii_def)
  show ?thesis
  proof (cases "s \<noteq> [] \<and> list_all (\<lambda>c. 48 \<le> c \<and> c \<le> 57) s")
    case True
    with assms r show ?thesis
      by (simp add: check_gfx_version_def isdigit_ascii int_of_str_ascii)
  next
    case False
    with assms(1) have "\<not> isdigit s"
      by (simp add: isdigit_ascii)
    with False r show ?thesis
      by (auto simp: check_gfx_version_def)
  qed
qed


text \<open>
  With a limit set, \<^verbatim>\<open>gfx\<close> followed by more digits than the limit makes
  \<^verbatim>\<open>int\<close> raise.
\<close>

lemma check_gfx_version_digit_limit:
  assumes "lim \<noteq> 0"
  shows "check_gfx_version lim (ascii ''gfx'' @ replicate (Suc lim) 49) =
           Inl (ValueError
             (''Exceeds the limit ('' @ str_nat lim
              @ '' digits) for integer string conversion: value has ''
              @ str_nat (Suc lim)
              @ '' digits; use sys.set_int_max_str_digits() to increase the limit''))"
proof -
  let ?s = "replicate (Suc lim) (49::nat)"
  have "\<not> occurs (ascii ''gfx'') (replicate n (49::nat))" for n
    by (induction n) (auto simp: ascii_def take_Cons')
  then have "str_replace (ascii ''gfx'') [] ?s = ?s"
    by (rule str_replace_no_occurrence)
  then have r: "replace (ascii ''gfx'' @ ?s) (ascii ''gfx'') [] = ?s"
    by (simp add: replace_def ascii_def)
  have d: "isdigit ?s"
    by (simp add: isdigit_def list_all_iff isdigit_char_ascii)
  have "\<forall>c\<in>set ?s. isdecimal_char c"
    by (simp add: isdecimal_char_ascii)
  then have tw: "takeWhile isdecimal_char ?s = ?s"
    by (simp only: takeWhile_eq_all_conv)
  from assms d show ?thesis
    unfolding check_gfx_version_def int_of_str_def Let_def r tw by simp
qed

text \<open>
  Claim C7 says that the parser strips the prefix \<^verbatim>\<open>gfx\<close> and returns the rest as
  an integer when it is all digits, and otherwise \<open>-1\<close>, never failing.  The code
  guards \<^verbatim>\<open>int\<close> with \<^verbatim>\<open>isdigit()\<close>, which is also true of digits that
  \<^verbatim>\<open>int\<close> does not read: on \<^verbatim>\<open>gfx\<close> followed by the superscript two U+00B2 it
  raises \<^verbatim>\<open>ValueError\<close>, whatever the limit of \<^verbatim>\<open>int\<close>.  It also removes every
  \<^verbatim>\<open>gfx\<close>, so that \<^verbatim>\<open>gfx9gfx0\<close>, whose suffix \<^verbatim>\<open>9gfx0\<close> is not all digits,
  gives 90.  The two examples of the claim, \<^verbatim>\<open>gfx90a\<close> and \<^verbatim>\<open>gfx942\<close>, give
  \<open>-1\<close> and 942.
\<close>

theorem check_gfx_version_raises:
  "isdigit [178]
   \<and> check_gfx_version lim (ascii ''gfx'' @ [178])
       = Inl (ValueError ''invalid literal for int() with base 10: '')
   \<and> check_gfx_version 4300 (ascii ''gfx9gfx0'') = Inr 90
   \<and> check_gfx_version 4300 (ascii ''gfx90a'') = Inr (- 1)
   \<and> check_gfx_version 4300 (ascii ''gfx942'') = Inr 942"
  by (simp add: check_gfx_version_def ascii_def replace_def isdigit_def isdigit_char_def
      isdecimal_char_def in_range_def decimal_ranges_def other_digit_ranges_def int_of_str_def
      decimal_value_def)

text \<open>
  Claim C8: in every profile that \<^verbatim>\<open>RDNA.__init__\<close> constructs, the shared-memory
  capacity is the one probed from device 0 and the shared-memory usage budget is twice
  that capacity.  A profile is a value: nothing updates a field of one once it is built.
\<close>

theorem RDNA_max_smem_usage:
  "RDNA_init lim Target hip tgt = Inr p \<Longrightarrow>
     rdna_smem_cap p = max_shared_memory_per_block (hip 0) \<and>
     rdna_max_smem_usage p = 2 * max_shared_memory_per_block (hip 0) \<and>
     rdna_max_smem_usage p = 2 * rdna_smem_cap p"
  by (auto simp: RDNA_init_def Let_def split: if_splits sum.splits)

theorem RDNA_max_smem_usage_witness:
  "\<exists>p. RDNA_init 4300
          (\<lambda>s. \<lparr>target_str = s, arch = ascii ''gfx1100'', l2_cache_size_bytes = 6291456\<rparr>)
          (\<lambda>i. \<lparr>exist = True, max_shared_memory_per_block = 65536, multi_processor_count = 96,
                 warp_size = 32, compute_version = ''11.0''\<rparr>) (Inl ''hip'') = Inr p
       \<and> rdna_smem_cap p = 65536 \<and> rdna_max_smem_usage p = 131072"
proof -
  let ?T = "\<lambda>s. \<lparr>target_str = s, arch = ascii ''gfx1100'', l2_cache_size_bytes = 6291456\<rparr>"
  let ?h = "\<lambda>i::nat. \<lparr>exist = True, max_shared_memory_per_block = 65536,
                 multi_processor_count = 96, warp_size = 32, compute_version = ''11.0''\<rparr>"
  have "check_gfx_version 4300 (ascii ''gfx1100'') = Inr 1100"
    by (simp add: check_gfx_version_def ascii_def replace_def isdigit_def isdigit_char_def
      isdecimal_char_def in_range_def decimal_ranges_def other_digit_ranges_def int_of_str_def
      decimal_value_def)
  then obtain p where p: "RDNA_init 4300 ?T ?h (Inl ''hip'') = Inr p"
    by (simp add: RDNA_init_def Let_def)
  from RDNA_max_smem_usage [OF p]
  have "rdna_smem_cap p = 65536 \<and> rdna_max_smem_usage p = 131072"
    by simp
  with p show ?thesis by blast
qed



section \<open>The operator: properties\<close>

text \<open>
  Claim C2: the \<^verbatim>\<open>prim_func\<close> property returns the only global function of the
  primary module when there is exactly one, whatever its name; otherwise the function
  named \<^verbatim>\<open>main\<close> when there is one; otherwise it raises the \<^verbatim>\<open>ValueError\<close>
  that the primary function cannot be determined.
\<close>

theorem prim_func_resolution:
  "(prim_func_mod st = [(n, f)] \<longrightarrow> prim_func st = Inr f)
   \<and> (length (get_global_vars (prim_func_mod st)) \<noteq> 1
        \<and> map_of (prim_func_mod st) ''main'' = Some g \<longrightarrow> prim_func st = Inr g)
   \<and> (length (get_global_vars (prim_func_mod st)) \<noteq> 1
        \<and> map_of (prim_func_mod st) ''main'' = None \<longrightarrow>
          prim_func st = Inl (ValueError ''Unable to determine primary function.''))"
  by (simp add: prim_func_def get_global_vars_def module_contains_def module_getitem_def)

theorem prim_func_resolution_witness:
  "prim_func ((example_operator ''CUDA'')\<lparr>prim_func_mod := [(''matmul'', example_func)]\<rparr>)
     = Inr example_func
   \<and> prim_func ((example_operator ''CUDA'')
        \<lparr>prim_func_mod := [(''matmul'', example_func\<lparr>body := ''other''\<rparr>), (''main'', example_func)]\<rparr>)
     = Inr example_func
   \<and> prim_func ((example_operator ''CUDA'')
        \<lparr>prim_func_mod := [(''matmul'', example_func), (''gemv'', example_func)]\<rparr>)
     = Inl (ValueError ''Unable to determine primary function.'')"
proof -
  let ?c = "example_operator ''CUDA''"
  let ?s1 = "?c\<lparr>prim_func_mod := [(''matmul'', example_func)]\<rparr>"
  let ?s2 = "?c\<lparr>prim_func_mod := [(''matmul'', example_func\<lparr>body := ''other''\<rparr>), (''main'', example_func)]\<rparr>"
  let ?s3 = "?c\<lparr>prim_func_mod := [(''matmul'', example_func), (''gemv'', example_func)]\<rparr>"
  note T = prim_func_resolution
  have a: "prim_func_mod ?s1 = [(''matmul'', example_func)]"
    by simp
  have b: "length (get_global_vars (prim_func_mod ?s2)) \<noteq> 1
      \<and> map_of (prim_func_mod ?s2) ''main'' = Some example_func"
    by (simp add: get_global_vars_def)
  have c: "length (get_global_vars (prim_func_mod ?s3)) \<noteq> 1
      \<and> map_of (prim_func_mod ?s3) ''main'' = None"
    by (simp add: get_global_vars_def)
  have h1: "prim_func ?s1 = Inr example_func"
    using T [THEN conjunct1, THEN mp, OF a] .
  have h2: "prim_func ?s2 = Inr example_func"
    using T [THEN conjunct2, THEN conjunct1, THEN mp, OF b] .
  have h3: "prim_func ?s3 = Inl (ValueError ''Unable to determine primary function.'')"
    using T [THEN conjunct2, THEN conjunct2, THEN mp, OF c] .
  from h1 h2 h3 show ?thesis by blast
qed

text \<open>
  After \<^verbatim>\<open>update_func\<close> the primary function is always the new definition, since
  it is stored under the name \<^verbatim>\<open>main\<close>.
\<close>

lemma prim_func_update_func: "prim_func (update_func f st) = Inr f"
proof (cases "length (AList.update ''main'' f (prim_func_mod st)) = 1")
  case True
  then obtain n g where eq: "AList.update ''main'' f (prim_func_mod st) = [(n, g)]"
    by (auto simp: length_Suc_conv)
  have "map_of (AList.update ''main'' f (prim_func_mod st)) ''main'' = Some f"
    by (simp add: update_conv')
  with eq have "n = ''main'' \<and> g = f"
    by (auto split: if_splits)
  with eq show ?thesis
    by (simp add: prim_func_def update_func_def module_setitem_def get_global_vars_def
        module_getitem_def)
next
  case False
  then show ?thesis
    by (simp add: prim_func_def update_func_def module_setitem_def get_global_vars_def
        module_getitem_def module_contains_def update_conv')
qed

text \<open>
  Claim C6 says that \<^verbatim>\<open>update_func\<close> replaces the entry point of the primary module
  whatever its name was, the old one not being kept as another global function.  On a
  module whose only function, its entry point, is named \<^verbatim>\<open>matmul\<close>, the code
  stores the new definition under \<^verbatim>\<open>main\<close> and keeps \<^verbatim>\<open>matmul\<close>: the module
  has two global functions afterwards.
\<close>

theorem update_func_keeps_old_entry:
  "prim_func (st\<lparr>prim_func_mod := [(''matmul'', g)]\<rparr>) = Inr g
   \<and> prim_func_mod (update_func f (st\<lparr>prim_func_mod := [(''matmul'', g)]\<rparr>))
       = [(''matmul'', g), (''main'', f)]
   \<and> get_global_vars (prim_func_mod (update_func f (st\<lparr>prim_func_mod := [(''matmul'', g)]\<rparr>)))
       = [''matmul'', ''main'']"
  by (simp add: prim_func_def update_func_def module_setitem_def get_global_vars_def
        module_getitem_def)





text \<open>An empty recorded array makes the division raise.\<close>

lemma resolve_opt_shape_empty_array:
  "resolve_opt_shape n (Array []) lg =
     (Inl (ZeroDivisionError ''integer division or modulo by zero''), lg)"
  by simp

lemma build_runtime_module_cuda_no_optimized:
  "arch st = Some a \<Longrightarrow> platform a = ''CUDA'' \<Longrightarrow> optimized_mod st = None \<Longrightarrow>
     build_runtime_module ev tgt st = (Inr None, st)"
  by (simp add: build_runtime_module_def)

text \<open>
  Claim C1: the default schedule fails when the pipeline raises, when the scheduled
  module has not exactly one global function, when it has no function named
  \<^verbatim>\<open>main\<close>, and when the generation of the kernel name raises.  Whenever it fails
  with an exception \<open>e\<close>, \<^verbatim>\<open>_build_default_module\<close> clears the optimized module,
  logs a \<^verbatim>\<open>WARNING\<close> made of the operator's class, the target, the hint
  \<^verbatim>\<open>default\<close> and \<open>e\<close>, and goes on to the build of the runtime module in that
  state: its outcome is the outcome of that build, and \<open>e\<close> is not raised.  On the
  CUDA platform that build returns at once, so nothing is raised at all.
\<close>

theorem build_default_module_schedule_failure:
  "(ApplyDefaultSchedule ev (prim_func_mod st) tgt = Inl e \<longrightarrow>
      default_schedule_try ev tgt st = Inl e)
   \<and> (ApplyDefaultSchedule ev (prim_func_mod st) tgt = Inr (Some sm)
        \<and> length (get_global_vars sm) \<noteq> 1 \<longrightarrow>
      default_schedule_try ev tgt st = Inl (AssertionError
        ''The optimized module should only have one global variable for default schedule.''))
   \<and> (ApplyDefaultSchedule ev (prim_func_mod st) tgt = Inr (Some sm)
        \<and> length (get_global_vars sm) = 1 \<and> \<not> module_contains sm ''main'' \<longrightarrow>
      default_schedule_try ev tgt st = Inl (AssertionError
        (''The optimized module should have a function named '' @ [CHR 0x27] @ ''main''
         @ [CHR 0x27] @ '' for default schedule.'')))
   \<and> (ApplyDefaultSchedule ev (prim_func_mod st) tgt = Inr (Some sm)
        \<and> length (get_global_vars sm) = 1 \<and> module_contains sm ''main''
        \<and> kernel_name_generator st = Some gen \<and> gen None = Inl e \<longrightarrow>
      default_schedule_try ev tgt st = Inl e)
   \<and> (default_schedule_try ev tgt st = Inl e \<longrightarrow>
        build_default_module ev tgt st =
          (case build_runtime_module ev tgt
                  (st\<lparr>optimized_mod := None,
                      logged := logged st @
                        [(WARNING, APPLY_SCHEDULE_FAILED_MESSAGE (class_name st) (str_target tgt)
                            ''default'' (str_exception e))]\<rparr>) of
             (Inl e', st2) \<Rightarrow> (Inl e', st2)
           | (Inr r, st2) \<Rightarrow> (Inr (), st2))
        \<and> (arch st = Some a \<and> platform a = ''CUDA'' \<longrightarrow>
             build_default_module ev tgt st =
               (Inr (),
                st\<lparr>optimized_mod := None,
                   logged := logged st @
                     [(WARNING, APPLY_SCHEDULE_FAILED_MESSAGE (class_name st) (str_target tgt)
                         ''default'' (str_exception e))]\<rparr>)))"
proof (intro conjI impI)
  assume "ApplyDefaultSchedule ev (prim_func_mod st) tgt = Inl e"
  then show "default_schedule_try ev tgt st = Inl e"
    by (simp add: default_schedule_try_def apply_default_schedule_def)
next
  assume "ApplyDefaultSchedule ev (prim_func_mod st) tgt = Inr (Some sm)
            \<and> length (get_global_vars sm) \<noteq> 1"
  then show "default_schedule_try ev tgt st = Inl (AssertionError
        ''The optimized module should only have one global variable for default schedule.'')"
    by (simp add: default_schedule_try_def apply_default_schedule_def)
next
  assume "ApplyDefaultSchedule ev (prim_func_mod st) tgt = Inr (Some sm)
        \<and> length (get_global_vars sm) = 1 \<and> \<not> module_contains sm ''main''"
  then show "default_schedule_try ev tgt st = Inl (AssertionError
        (''The optimized module should have a function named '' @ [CHR 0x27] @ ''main''
         @ [CHR 0x27] @ '' for default schedule.''))"
    by (simp add: default_schedule_try_def apply_default_schedule_def)
next
  assume "ApplyDefaultSchedule ev (prim_func_mod st) tgt = Inr (Some sm)
        \<and> length (get_global_vars sm) = 1 \<and> module_contains sm ''main''
        \<and> kernel_name_generator st = Some gen \<and> gen None = Inl e"
  then show "default_schedule_try ev tgt st = Inl e"
    by (simp add: default_schedule_try_def apply_default_schedule_def)
next
  assume "default_schedule_try ev tgt st = Inl e"
  then show "build_default_module ev tgt st =
          (case build_runtime_module ev tgt
                  (st\<lparr>optimized_mod := None,
                      logged := logged st @
                        [(WARNING, APPLY_SCHEDULE_FAILED_MESSAGE (class_name st) (str_target tgt)
                            ''default'' (str_exception e))]\<rparr>) of
             (Inl e', st2) \<Rightarrow> (Inl e', st2)
           | (Inr r, st2) \<Rightarrow> (Inr (), st2))"
    by (simp add: build_default_module_def)
next
  assume failed: "default_schedule_try ev tgt st = Inl e"
    and cuda: "arch st = Some a \<and> platform a = ''CUDA''"
  let ?st1 = "st\<lparr>optimized_mod := None,
                   logged := logged st @
                     [(WARNING, APPLY_SCHEDULE_FAILED_MESSAGE (class_name st) (str_target tgt)
                         ''default'' (str_exception e))]\<rparr>"
  from cuda have "build_runtime_module ev tgt ?st1 = (Inr None, ?st1)"
    by (intro build_runtime_module_cuda_no_optimized [where a = a]) simp_all
  with failed show "build_default_module ev tgt st = (Inr (), ?st1)"
    by (simp add: build_default_module_def)
qed

theorem build_default_module_schedule_failure_witness:
  "default_schedule_try (example_env (Inl (TVMError ''no schedule''))) (Some example_target)
       (example_operator ''CUDA'') = Inl (TVMError ''no schedule'')
   \<and> default_schedule_try
       (example_env (Inr (Some [(''main'', example_func), (''aux'', example_func)])))
       (Some example_target) (example_operator ''CUDA'')
       = Inl (AssertionError
          ''The optimized module should only have one global variable for default schedule.'')
   \<and> default_schedule_try (example_env (Inr (Some [(''matmul'', example_func)])))
       (Some example_target) (example_operator ''CUDA'')
       = Inl (AssertionError
          (''The optimized module should have a function named '' @ [CHR 0x27] @ ''main''
           @ [CHR 0x27] @ '' for default schedule.''))
   \<and> default_schedule_try (example_env (Inr (Some [(''main'', example_func)])))
       (Some example_target)
       ((example_operator ''CUDA'')
          \<lparr>kernel_name_generator := Some (\<lambda>h. Inl (ValueError ''no name''))\<rparr>)
       = Inl (ValueError ''no name'')
   \<and> build_default_module (example_env (Inl (TVMError ''no schedule''))) (Some example_target)
       (example_operator ''CUDA'')
       = (Inr (),
          (example_operator ''CUDA'')
            \<lparr>optimized_mod := None,
             logged := [(WARNING,
               ''Failed to apply default schedule for operator Matmul With target cuda and hint default. ''
               @ [CHR 0x0A] @ ''The error message: no schedule Please perform hardware-aware tuning manually.'')]\<rparr>)
   \<and> build_default_module (example_env (Inl (TVMError ''no schedule''))) (Some example_target)
       (example_operator ''RDNA'')
       = (Inl (TVMError ''build failed''),
          (example_operator ''RDNA'')
            \<lparr>optimized_mod := None,
             logged := [(WARNING,
               ''Failed to apply default schedule for operator Matmul With target cuda and hint default. ''
               @ [CHR 0x0A] @ ''The error message: no schedule Please perform hardware-aware tuning manually.'')]\<rparr>)"
proof -
  let ?t = "Some example_target"
  let ?e1 = "example_env (Inl (TVMError ''no schedule''))"
  let ?e2 = "example_env (Inr (Some [(''main'', example_func), (''aux'', example_func)]))"
  let ?e3 = "example_env (Inr (Some [(''matmul'', example_func)]))"
  let ?e4 = "example_env (Inr (Some [(''main'', example_func)]))"
  let ?g = "\<lambda>h::Hint option. (Inl (ValueError ''no name'') :: exception + string)"
  let ?c = "example_operator ''CUDA''"
  let ?r = "example_operator ''RDNA''"
  let ?a = "\<lparr>platform = ''CUDA'', tile_device_device = example_device\<rparr>"
  note T = build_default_module_schedule_failure
  have h1: "default_schedule_try ?e1 ?t ?c = Inl (TVMError ''no schedule'')"
    using T [where ev = ?e1 and st = ?c and tgt = ?t and e = "TVMError ''no schedule''"]
    by (simp add: example_env_def)
  have h1r: "default_schedule_try ?e1 ?t ?r = Inl (TVMError ''no schedule'')"
    using T [where ev = ?e1 and st = ?r and tgt = ?t and e = "TVMError ''no schedule''"]
    by (simp add: example_env_def)
  have h2: "default_schedule_try ?e2 ?t ?c = Inl (AssertionError
          ''The optimized module should only have one global variable for default schedule.'')"
    using T [where ev = ?e2 and st = ?c and tgt = ?t
        and sm = "[(''main'', example_func), (''aux'', example_func)]"]
    by (simp add: example_env_def get_global_vars_def)
  have h3: "default_schedule_try ?e3 ?t ?c = Inl (AssertionError
          (''The optimized module should have a function named '' @ [CHR 0x27] @ ''main''
           @ [CHR 0x27] @ '' for default schedule.''))"
    using T [where ev = ?e3 and st = ?c and tgt = ?t and sm = "[(''matmul'', example_func)]"]
    by (simp add: example_env_def get_global_vars_def module_contains_def)
  have h4: "default_schedule_try ?e4 ?t (?c\<lparr>kernel_name_generator := Some ?g\<rparr>)
             = Inl (ValueError ''no name'')"
    using T [where ev = ?e4 and st = "?c\<lparr>kernel_name_generator := Some ?g\<rparr>" and tgt = ?t
        and sm = "[(''main'', example_func)]" and gen = ?g and e = "ValueError ''no name''"]
    by (simp add: example_env_def get_global_vars_def module_contains_def)
  note B = T [THEN conjunct2, THEN conjunct2, THEN conjunct2, THEN conjunct2, THEN mp]
  have cuda: "arch ?c = Some ?a \<and> platform ?a = ''CUDA''"
    by (simp add: example_operator_def)
  have h5: "build_default_module ?e1 ?t ?c
       = (Inr (),
          ?c\<lparr>optimized_mod := None,
             logged := [(WARNING,
               ''Failed to apply default schedule for operator Matmul With target cuda and hint default. ''
               @ [CHR 0x0A] @ ''The error message: no schedule Please perform hardware-aware tuning manually.'')]\<rparr>)"
    using B [OF h1, THEN conjunct2, THEN mp, OF cuda]
    by (simp add: example_operator_def example_target_def APPLY_SCHEDULE_FAILED_MESSAGE_def
        str_target_def)
  have h6: "build_default_module ?e1 ?t ?r
       = (Inl (TVMError ''build failed''),
          ?r\<lparr>optimized_mod := None,
             logged := [(WARNING,
               ''Failed to apply default schedule for operator Matmul With target cuda and hint default. ''
               @ [CHR 0x0A] @ ''The error message: no schedule Please perform hardware-aware tuning manually.'')]\<rparr>)"
    using B [OF h1r, THEN conjunct1]
    by (simp add: example_operator_def example_target_def APPLY_SCHEDULE_FAILED_MESSAGE_def
        str_target_def build_runtime_module_def prim_func_def get_global_vars_def
        module_getitem_def example_env_def)
  from h1 h2 h3 h4 h5 h6 show ?thesis by blast
qed

text \<open>
  Claim C3: on the CUDA platform, with an optimized module to build, an exception of the
  build is caught: a \<^verbatim>\<open>DEBUG\<close> record made of the operator's class, the target and
  the hint \<^verbatim>\<open>optimized\<close> is logged, \<^verbatim>\<open>None\<close> is returned and the operator's
  runtime module is not assigned: it keeps the value it had, so it is absent when it was
  absent.  On any other platform the primary function is built and an exception of that
  build is raised to the caller as it is, the state unchanged.
\<close>

theorem build_runtime_module_failure:
  "(arch st = Some a \<and> platform a = ''CUDA'' \<and> optimized_mod st = Some om
      \<and> tvm_build_module ev (build_pass_config (pass_context st)) om tgt = Inl e \<longrightarrow>
      build_runtime_module ev tgt st =
        (Inr None,
         st\<lparr>cuda_postproc := True,
            logged := logged st @
              [(DEBUG, BUILD_RUNTIME_LIBRARY_FAILED_MESSAGE (class_name st) (str_target tgt)
                  ''optimized'' ''Failed to build optimized module'')]\<rparr>)
      \<and> rt_mod (snd (build_runtime_module ev tgt st)) = rt_mod st)
   \<and> (arch st = Some a \<and> platform a \<noteq> ''CUDA'' \<and> prim_func st = Inr f
      \<and> tvm_build_func ev f tgt (name st) = Inl e \<longrightarrow>
      build_runtime_module ev tgt st = (Inl e, st))"
  by (simp add: build_runtime_module_def after_build_def)

theorem build_runtime_module_failure_witness:
  "build_runtime_module (example_env (Inr None)) (Some example_target)
       ((example_operator ''CUDA'')\<lparr>optimized_mod := Some [(''kernel'', example_func)]\<rparr>)
     = (Inr None,
        (example_operator ''CUDA'')
          \<lparr>optimized_mod := Some [(''kernel'', example_func)],
           cuda_postproc := True,
           logged := [(DEBUG,
             ''Failed to build runtime library for operator Matmul With target cuda and hint optimized. ''
             @ [CHR 0x0A] @ ''The error message: Failed to build optimized module Please perform hardware-aware tuning manually.'')]\<rparr>)
   \<and> build_runtime_module (example_env (Inr None)) (Some example_target)
        (example_operator ''RDNA'')
     = (Inl (TVMError ''build failed''), example_operator ''RDNA'')"
proof -
  let ?ev = "example_env (Inr None)"
  let ?t = "Some example_target"
  let ?c = "(example_operator ''CUDA'')\<lparr>optimized_mod := Some [(''kernel'', example_func)]\<rparr>"
  let ?r = "example_operator ''RDNA''"
  note T = build_runtime_module_failure
  have c: "arch ?c = Some \<lparr>platform = ''CUDA'', tile_device_device = example_device\<rparr>
      \<and> platform \<lparr>platform = ''CUDA'', tile_device_device = example_device\<rparr> = ''CUDA''
      \<and> optimized_mod ?c = Some [(''kernel'', example_func)]
      \<and> tvm_build_module ?ev (build_pass_config (pass_context ?c)) [(''kernel'', example_func)] ?t
          = Inl (TVMError ''build failed'')"
    by (simp add: example_operator_def example_env_def)
  have r: "arch ?r = Some \<lparr>platform = ''RDNA'', tile_device_device = example_device\<rparr>
      \<and> platform \<lparr>platform = ''RDNA'', tile_device_device = example_device\<rparr> \<noteq> ''CUDA''
      \<and> prim_func ?r = Inr example_func
      \<and> tvm_build_func ?ev example_func ?t (name ?r) = Inl (TVMError ''build failed'')"
    by (simp add: example_operator_def example_env_def prim_func_def get_global_vars_def
        module_getitem_def)
  have h1: "build_runtime_module ?ev ?t ?c
     = (Inr None,
        (example_operator ''CUDA'')
          \<lparr>optimized_mod := Some [(''kernel'', example_func)],
           cuda_postproc := True,
           logged := [(DEBUG,
             ''Failed to build runtime library for operator Matmul With target cuda and hint optimized. ''
             @ [CHR 0x0A] @ ''The error message: Failed to build optimized module Please perform hardware-aware tuning manually.'')]\<rparr>)"
    using T [THEN conjunct1, THEN mp, OF c, THEN conjunct1]
    by (simp add: example_operator_def example_target_def
        BUILD_RUNTIME_LIBRARY_FAILED_MESSAGE_def str_target_def)
  have h2: "build_runtime_module ?ev ?t ?r = (Inl (TVMError ''build failed''), ?r)"
    using T [THEN conjunct2, THEN mp, OF r] .
  from h1 h2 show ?thesis by blast
qed

text \<open>
  Claim C10: when the search returns no best result, \<^verbatim>\<open>apply_fast_tuning\<close> raises
  the \<^verbatim>\<open>AttributeError\<close> of reading \<^verbatim>\<open>config\<close> of \<^verbatim>\<open>None\<close>, and so does
  \<^verbatim>\<open>hardware_aware_finetune\<close> when no dynamic range is set; the operator's state,
  its optimized module and pass context among it, is as before.
\<close>

theorem apply_fast_tuning_no_best:
  "(fast_tune ev func tgt topk pb = Inr (cands, None) \<longrightarrow>
      apply_fast_tuning ev func tgt topk pb st = (Inl (no_attribute ''config''), st))
   \<and> (dynamic_range st = None \<and> prim_func st = Inr func
      \<and> fast_tune ev func (case tgt' of None \<Rightarrow> target st | Some t \<Rightarrow> Some t) topk pb
           = Inr (cands, None) \<longrightarrow>
      hardware_aware_finetune ev topk tgt' pb st = (Inl (no_attribute ''config''), st)
      \<and> optimized_mod (snd (hardware_aware_finetune ev topk tgt' pb st)) = optimized_mod st
      \<and> pass_context (snd (hardware_aware_finetune ev topk tgt' pb st)) = pass_context st)"
  by (simp add: apply_fast_tuning_def hardware_aware_finetune_def finetune_schedule_def)

theorem apply_fast_tuning_no_best_witness:
  "apply_fast_tuning (example_env (Inr None)) example_func (Some example_target) 20 True
       (example_operator ''CUDA'')
     = (Inl (no_attribute ''config''), example_operator ''CUDA'')
   \<and> hardware_aware_finetune (example_env (Inr None)) 20 None True (example_operator ''CUDA'')
     = (Inl (no_attribute ''config''), example_operator ''CUDA'')"
proof -
  let ?ev = "example_env (Inr None)"
  let ?c = "example_operator ''CUDA''"
  note T = apply_fast_tuning_no_best
  have a: "fast_tune ?ev example_func (Some example_target) 20 True = Inr ([], None)"
    by (simp add: example_env_def)
  have b: "dynamic_range ?c = None \<and> prim_func ?c = Inr example_func
      \<and> fast_tune ?ev example_func (case None of None \<Rightarrow> target ?c | Some t \<Rightarrow> Some t) 20 True
           = Inr ([], None)"
    by (simp add: example_operator_def example_env_def prim_func_def get_global_vars_def
        module_getitem_def)
  have h1: "apply_fast_tuning ?ev example_func (Some example_target) 20 True ?c
     = (Inl (no_attribute ''config''), ?c)"
    using T [THEN conjunct1, THEN mp, OF a] .
  have h2: "hardware_aware_finetune ?ev 20 None True ?c = (Inl (no_attribute ''config''), ?c)"
    using T [THEN conjunct2, THEN mp, OF b, THEN conjunct1] .
  from h1 h2 show ?thesis by blast
qed

section \<open>The CPU executor: properties\<close>

lemma forward_loop_snoc:
  "forward_loop (ops @ [op]) inputs w =
     (case forward_loop ops inputs w of
        (Inl e, w1) \<Rightarrow> (Inl e, w1)
      | (Inr ins, w1) \<Rightarrow>
          (case op ins w1 of (Inl e, w2) \<Rightarrow> (Inl e, w2) | (Inr out, w2) \<Rightarrow> (Inr [out], w2)))"
  by (induction ops arbitrary: inputs w) (auto split: prod.splits sum.splits)

lemma forward_loop_single:
  "forward_loop ops inputs w = (Inr outs, w') \<Longrightarrow> length inputs = 1 \<Longrightarrow> length outs = 1"
  by (induction ops arbitrary: inputs w) (auto split: prod.splits sum.splits)

lemma forward_loop_probe:
  "forward_loop (map (\<lambda>(t, f). probe t f) tfs) [x] tr
     = (Inr [foldl (\<lambda>y (t, f). f [y]) x tfs], tr @ calls x tfs)"
  by (induction tfs arbitrary: x tr) (auto simp: probe_def)

text \<open>
  Claim C5: \<^verbatim>\<open>forward\<close> on an empty list of operators returns its input.  On a
  chain extended by one operator it runs the chain, and calls the last operator with
  the one value the chain returned, whose result it returns.  A chain of observing
  operators records one call for each operator, in the order of the chain, each with
  the one value the stage before returned, and the value returned is the last stage's.
\<close>

theorem forward_chain:
  "forward \<lparr>operators = []\<rparr> x w = (Inr x, w)
   \<and> forward \<lparr>operators = ops @ [op]\<rparr> x w =
       (case forward \<lparr>operators = ops\<rparr> x w of
          (Inl e, w1) \<Rightarrow> (Inl e, w1)
        | (Inr y, w1) \<Rightarrow> op [y] w1)
   \<and> forward \<lparr>operators = map (\<lambda>(t, f). probe t f) tfs\<rparr> x tr =
       (Inr (foldl (\<lambda>y (t, f). f [y]) x tfs), tr @ calls x tfs)"
proof (intro conjI)
  show "forward \<lparr>operators = []\<rparr> x w = (Inr x, w)"
    by (simp add: forward_def)
next
  show "forward \<lparr>operators = ops @ [op]\<rparr> x w =
       (case forward \<lparr>operators = ops\<rparr> x w of
          (Inl e, w1) \<Rightarrow> (Inl e, w1)
        | (Inr y, w1) \<Rightarrow> op [y] w1)"
  proof (cases "forward_loop ops [x] w")
    case (Pair r w1)
    show ?thesis
    proof (cases r)
      case (Inl e)
      with Pair show ?thesis
        by (simp add: forward_def forward_loop_snoc)
    next
      case (Inr ins)
      with Pair have "length ins = 1"
        using forward_loop_single [of ops "[x]" w ins w1] by simp
      then obtain y where "ins = [y]"
        by (auto simp: length_Suc_conv)
      with Pair Inr show ?thesis
        by (auto simp: forward_def forward_loop_snoc split: prod.splits sum.splits)
    qed
  qed
next
  show "forward \<lparr>operators = map (\<lambda>(t, f). probe t f) tfs\<rparr> x tr =
       (Inr (foldl (\<lambda>y (t, f). f [y]) x tfs), tr @ calls x tfs)"
    by (simp add: forward_def forward_loop_probe)
qed

end
